theory Spec2Isabelle
  imports Main "HOL-Library.Word" "HOL-Library.Sublist" "HOL-Library.Multiset"
begin

section \<open>JavaScript strings\<close>

text \<open>
  A JavaScript string is a sequence of 16-bit code units. Every character the validator
  looks at (the line feed, the white space removed by \<^verbatim>\<open>trim\<close>, the decimal digits,
  \<^verbatim>\<open>@\<close>, \<^verbatim>\<open>-\<close> and the letters of the keywords) is a single code unit, so
  the functions below work on code units as the engine does.
\<close>

type_synonym jschar = "16 word"
type_synonym jsstring = "jschar list"

text \<open>String literals of the source, written as Isabelle strings.\<close>

definition js :: "string \<Rightarrow> jsstring" where
  "js s = map of_char s"

text \<open>
  \<^verbatim>\<open>WhiteSpace\<close> and \<^verbatim>\<open>LineTerminator\<close> of ECMAScript, the code units that
  \<^verbatim>\<open>String.prototype.trim\<close> removes: TAB, LF, VT, FF, CR, SPACE, NBSP, U+1680,
  U+2000 to U+200A, U+2028, U+2029, U+202F, U+205F, U+3000 and U+FEFF.
\<close>

definition isWhiteSpace :: "jschar \<Rightarrow> bool" where
  "isWhiteSpace c \<longleftrightarrow>
     c = 0x09 \<or> c = 0x0A \<or> c = 0x0B \<or> c = 0x0C \<or> c = 0x0D \<or> c = 0x20 \<or> c = 0xA0 \<or>
     c = 0x1680 \<or> (0x2000 \<le> c \<and> c \<le> 0x200A) \<or> c = 0x2028 \<or> c = 0x2029 \<or>
     c = 0x202F \<or> c = 0x205F \<or> c = 0x3000 \<or> c = 0xFEFF"

text \<open>\<^verbatim>\<open>s.trim()\<close>: white space is dropped at both ends.\<close>

definition trim :: "jsstring \<Rightarrow> jsstring" where
  "trim s = rev (dropWhile isWhiteSpace (rev (dropWhile isWhiteSpace s)))"

text \<open>\<^verbatim>\<open>s.startsWith(p)\<close>.\<close>

definition startsWith :: "jsstring \<Rightarrow> jsstring \<Rightarrow> bool" where
  "startsWith s p = prefix p s"

text \<open>\<^verbatim>\<open>s.includes(p)\<close>: \<open>p\<close> occurs in \<open>s\<close> at some position.\<close>

fun includes_str :: "jsstring \<Rightarrow> jsstring \<Rightarrow> bool" where
  "includes_str [] p = (p = [])"
| "includes_str (c # cs) p = (prefix p (c # cs) \<or> includes_str cs p)"

text \<open>
  \<^verbatim>\<open>s.split(sep)\<close> for a non-empty separator string: the pieces between the
  occurrences of \<open>sep\<close>, found from left to right without overlap. The empty string
  splits into one empty piece. (The source only splits on \<^verbatim>\<open>'\n'\<close> and
  \<^verbatim>\<open>'\n\n'\<close>; the empty separator, which JavaScript treats differently, is
  not used.)
\<close>

function split_str :: "jsstring \<Rightarrow> jsstring \<Rightarrow> jsstring list" where
  "split_str sep [] = [[]]"
| "split_str sep (c # cs) =
     (if sep \<noteq> [] \<and> prefix sep (c # cs)
      then [] # split_str sep (drop (length sep) (c # cs))
      else (case split_str sep cs of
              [] \<Rightarrow> [[c]]
            | p # ps \<Rightarrow> (c # p) # ps))"
  by pat_completeness auto
termination
  by (relation "measure (\<lambda>(sep, s). length s)") (auto simp: neq_Nil_conv)

text \<open>\<^verbatim>\<open>xs.join(sep)\<close>.\<close>

fun join :: "jsstring \<Rightarrow> jsstring list \<Rightarrow> jsstring" where
  "join sep [] = []"
| "join sep [x] = x"
| "join sep (x # y # ys) = x @ sep @ join sep (y # ys)"

text \<open>
  \<^verbatim>\<open>s.replace(pat, rep)\<close> with a string pattern: the first occurrence of
  \<open>pat\<close> is replaced. (The source's replacement is the empty string, so the
  \<^verbatim>\<open>$\<close> patterns of the replacement text play no role.)
\<close>

fun replace :: "jsstring \<Rightarrow> jsstring \<Rightarrow> jsstring \<Rightarrow> jsstring" where
  "replace [] pat rep = (if pat = [] then rep else [])"
| "replace (c # cs) pat rep =
     (if prefix pat (c # cs) then rep @ drop (length pat) (c # cs)
      else c # replace cs pat rep)"

text \<open>The regular expression class \<^verbatim>\<open>\d\<close>: the ten ASCII digits.\<close>

definition isDigit :: "jschar \<Rightarrow> bool" where
  "isDigit c \<longleftrightarrow> 0x30 \<le> c \<and> c \<le> 0x39"

text \<open>
  \<^verbatim>\<open>s.match(/\d+/g)\<close>: with the global flag the result is the list of all matches,
  each found at the first digit after the previous match and extended greedily, or
  \<^verbatim>\<open>null\<close> when there is no match.
\<close>

function matchAll_digits :: "jsstring \<Rightarrow> jsstring list" where
  "matchAll_digits [] = []"
| "matchAll_digits (c # cs) =
     (if isDigit c
      then (c # takeWhile isDigit cs) # matchAll_digits (dropWhile isDigit cs)
      else matchAll_digits cs)"
  by pat_completeness auto
termination
  by (relation "measure length") (auto simp: length_dropWhile_le less_Suc_eq_le)

definition match_digits :: "jsstring \<Rightarrow> jsstring list option" where
  "match_digits s = (case matchAll_digits s of [] \<Rightarrow> None | m # ms \<Rightarrow> Some (m # ms))"

text \<open>
  \<^verbatim>\<open>parseInt\<close> on a string of decimal digits (the only strings it is given here):
  the number they write in base 10. JavaScript numbers are doubles; the sum below is
  compared with 506 only, and a sum of non-negative doubles is 506 exactly when the
  sum of the integers is (a term or partial sum above 506 stays above it under
  rounding), so natural numbers give the same verdict.
\<close>

definition digitValue :: "jschar \<Rightarrow> nat" where
  "digitValue c = unat c - 48"

definition parseInt :: "jsstring \<Rightarrow> nat" where
  "parseInt s = foldl (\<lambda>n c. 10 * n + digitValue c) 0 s"

text \<open>A number in a template literal: its decimal digits.\<close>

fun toString :: "nat \<Rightarrow> jsstring" where
  "toString n =
     (if n < 10 then [of_nat (48 + n)]
      else toString (n div 10) @ [of_nat (48 + n mod 10)])"

declare toString.simps [simp del]

section \<open>The validator (utils/pokemon-utils)\<close>

text \<open>
  \<^verbatim>\<open>validateEVSpread(evString)\<close>: false on the empty string and when no digit is
  found; otherwise the matches are summed and the total compared with 506.
\<close>

definition validateEVSpread :: "jsstring \<Rightarrow> bool" where
  "validateEVSpread evString =
     (if evString = [] then False
      else (case match_digits evString of
              None \<Rightarrow> False
            | Some numbers \<Rightarrow>
                (let total = foldl (\<lambda>sum num. sum + parseInt num) 0 numbers
                 in total = 506)))"

text \<open>
  The object returned by \<^verbatim>\<open>validatePokemon\<close>: \<^verbatim>\<open>{ valid: false, error }\<close> or
  \<^verbatim>\<open>{ valid: true, pokemon }\<close>.
\<close>

datatype validation = Invalid (error: jsstring) | Valid (pokemon: jsstring)

fun valid :: "validation \<Rightarrow> bool" where
  "valid (Valid _) = True"
| "valid (Invalid _) = False"

text \<open>
  \<^verbatim>\<open>pokemonText.split('\n').map(line => line.trim()).filter(line => line)\<close>:
  the trimmed lines that are not empty.
\<close>

definition trimmedLines :: "jsstring \<Rightarrow> jsstring list" where
  "trimmedLines text =
     filter (\<lambda>line. line \<noteq> []) (map trim (split_str (js ''\<newline>'') text))"

text \<open>
  \<^verbatim>\<open>validatePokemon(pokemonText)\<close>. \<^verbatim>\<open>lines[0]\<close> is read only after the length
  check, so it exists. \<^verbatim>\<open>lines.find\<close> gives \<^verbatim>\<open>undefined\<close> (here \<open>None\<close>)
  when there is no EV line, and the spread check is then skipped.
\<close>

definition validatePokemon :: "jsstring \<Rightarrow> validation" where
  "validatePokemon pokemonText =
     (let lines = trimmedLines pokemonText in
      if length lines < 6 then Invalid (js ''Pokemon entry too short'')
      else
        let hasItem = includes_str (lines ! 0) (js ''@'');
            hasAbility = list_ex (\<lambda>line. startsWith line (js ''Ability:'')) lines;
            hasEVs = list_ex (\<lambda>line. startsWith line (js ''EVs:'')) lines;
            hasNature = list_ex (\<lambda>line. includes_str line (js ''Nature'')) lines;
            hasMoves = list_ex (\<lambda>line. startsWith line (js ''-'')) lines
        in
        if \<not> hasItem then Invalid (js ''Missing item (@)'')
        else if \<not> hasAbility then Invalid (js ''Missing ability'')
        else if \<not> hasEVs then Invalid (js ''Missing EVs'')
        else if \<not> hasNature then Invalid (js ''Missing nature'')
        else if \<not> hasMoves then Invalid (js ''Missing moves'')
        else
          (case (case find (\<lambda>line. startsWith line (js ''EVs:'')) lines of
                   None \<Rightarrow> None
                 | Some evLine \<Rightarrow>
                     (let evSpread = trim (replace evLine (js ''EVs:'') [])
                      in if \<not> validateEVSpread evSpread
                         then Some (Invalid (js ''Invalid EV spread: '' @ evSpread))
                         else None)) of
             Some failure \<Rightarrow> failure
           | None \<Rightarrow>
               (let moves = filter (\<lambda>line. startsWith line (js ''-'')) lines in
                if length moves \<noteq> 4
                then Invalid (js ''Expected 4 moves, found '' @ toString (length moves))
                else Valid pokemonText)))"

text \<open>
  One element of \<^verbatim>\<open>validation_results\<close>: \<^verbatim>\<open>{ index: i + 1, ...result }\<close>.
\<close>

record detail =
  index :: nat
  result :: validation

text \<open>
  The object returned by \<^verbatim>\<open>validateTeam\<close>. The count failure carries no
  \<^verbatim>\<open>details\<close> field; the entry failure carries the list built so far.
\<close>

datatype team_validation =
    TeamInvalid (team_error: jsstring) (partial_details: "detail list option")
  | TeamValid (pokemon_count: nat) (details: "detail list")

fun team_valid :: "team_validation \<Rightarrow> bool" where
  "team_valid (TeamValid _ _) = True"
| "team_valid (TeamInvalid _ _) = False"

text \<open>\<^verbatim>\<open>teamText.split('\n\n').filter(entry => entry.trim())\<close>.\<close>

definition pokemonEntries :: "jsstring \<Rightarrow> jsstring list" where
  "pokemonEntries teamText =
     filter (\<lambda>entry. trim entry \<noteq> []) (split_str (js ''\<newline>\<newline>'') teamText)"

text \<open>
  The \<^verbatim>\<open>for\<close> loop of \<^verbatim>\<open>validateTeam\<close> from index \<open>i\<close> on: \<open>rest\<close> are the
  entries \<open>i, i + 1, ...\<close>, \<open>n\<close> is \<^verbatim>\<open>pokemonEntries.length\<close> and
  \<open>validation_results\<close> the list pushed so far.
\<close>

fun validateTeam_loop :: "nat \<Rightarrow> nat \<Rightarrow> jsstring list \<Rightarrow> detail list \<Rightarrow> team_validation" where
  "validateTeam_loop n i [] validation_results = TeamValid n validation_results"
| "validateTeam_loop n i (entry # rest) validation_results =
     (let result = validatePokemon entry;
          validation_results' = validation_results @ [\<lparr>index = i + 1, result = result\<rparr>]
      in if \<not> valid result
         then TeamInvalid (js ''Pokemon '' @ toString (i + 1) @ js '': '' @ error result)
                (Some validation_results')
         else validateTeam_loop n (i + 1) rest validation_results')"

definition validateTeam :: "jsstring \<Rightarrow> team_validation" where
  "validateTeam teamText =
     (let entries = pokemonEntries teamText in
      if length entries \<noteq> 6
      then TeamInvalid (js ''Expected 6 Pokemon, found '' @ toString (length entries)) None
      else validateTeam_loop (length entries) 0 entries [])"

section \<open>The repair pass (validateAndFixTeam of the server module)\<close>

text \<open>The three variables the line loop of \<^verbatim>\<open>validateAndFixTeam\<close> updates.\<close>

record fix_state =
  pokemonCount :: nat
  currentPokemon :: "jsstring list"
  validatedTeam :: "jsstring list"

definition flush :: "fix_state \<Rightarrow> fix_state" where
  "flush st = st\<lparr>validatedTeam := validatedTeam st @ [join (js ''\<newline>'') (currentPokemon st)],
               pokemonCount := pokemonCount st + 1\<rparr>"

text \<open>One iteration of \<^verbatim>\<open>for (let line of lines)\<close>.\<close>

definition fix_step :: "jsstring \<Rightarrow> fix_state \<Rightarrow> fix_state" where
  "fix_step line0 st =
     (let line = trim line0 in
      if line = [] then
        (if length (currentPokemon st) > 0
         then (flush st)\<lparr>currentPokemon := []\<rparr>
         else st)
      else if includes_str line (js ''@'') then
        (if length (currentPokemon st) > 0
         then (flush st)\<lparr>currentPokemon := [line]\<rparr>
         else st\<lparr>currentPokemon := [line]\<rparr>)
      else st\<lparr>currentPokemon := currentPokemon st @ [line]\<rparr>)"

fun fix_loop :: "jsstring list \<Rightarrow> fix_state \<Rightarrow> fix_state" where
  "fix_loop [] st = st"
| "fix_loop (line # lines) st = fix_loop lines (fix_step line st)"

text \<open>
  \<^verbatim>\<open>validateAndFixTeam(team, format)\<close>; \<^verbatim>\<open>format\<close> is not used by the body,
  and the two \<^verbatim>\<open>console.log\<close> calls do not affect the value returned.
\<close>

definition validateAndFixTeam :: "jsstring \<Rightarrow> jsstring" where
  "validateAndFixTeam team =
     (let validation = validateTeam team in
      if team_valid validation then team
      else
        let lines = split_str (js ''\<newline>'') team;
            st = fix_loop lines \<lparr>pokemonCount = 0, currentPokemon = [], validatedTeam = []\<rparr>;
            st' = (if length (currentPokemon st) > 0 then flush st else st)
        in join (js ''\<newline>\<newline>'') (validatedTeam st'))"

section \<open>The ordered rule table of the specification\<close>

text \<open>
  The specification describes \<^verbatim>\<open>validatePokemon\<close> as an ordered list of checks, each
  a predicate with a reason, of which the first failing one decides the result. This is
  that list, in the order line count, item marker, ability, EVs present, nature, moves
  present, EV sum, move count, with the reason strings of the source. It is compared
  with the source's function below; it is not used to define it.
\<close>

definition spec_checks :: "jsstring \<Rightarrow> (bool \<times> jsstring) list" where
  "spec_checks E =
     (let lines = trimmedLines E;
          evLine = find (\<lambda>line. startsWith line (js ''EVs:'')) lines;
          evSpread = (case evLine of None \<Rightarrow> [] | Some l \<Rightarrow> trim (replace l (js ''EVs:'') []));
          moves = filter (\<lambda>line. startsWith line (js ''-'')) lines
      in
      [(6 \<le> length lines, js ''Pokemon entry too short''),
       (lines \<noteq> [] \<and> includes_str (lines ! 0) (js ''@''), js ''Missing item (@)''),
       (list_ex (\<lambda>line. startsWith line (js ''Ability:'')) lines, js ''Missing ability''),
       (list_ex (\<lambda>line. startsWith line (js ''EVs:'')) lines, js ''Missing EVs''),
       (list_ex (\<lambda>line. includes_str line (js ''Nature'')) lines, js ''Missing nature''),
       (list_ex (\<lambda>line. startsWith line (js ''-'')) lines, js ''Missing moves''),
       (evLine = None \<or> validateEVSpread evSpread, js ''Invalid EV spread: '' @ evSpread),
       (length moves = 4, js ''Expected 4 moves, found '' @ toString (length moves))])"

definition first_failure :: "(bool \<times> jsstring) list \<Rightarrow> jsstring option" where
  "first_failure cs = map_option snd (find (\<lambda>(ok, reason). \<not> ok) cs)"

section \<open>Sample inputs\<close>

text \<open>\<^verbatim>\<open>validPokemon\<close> and \<^verbatim>\<open>invalidPokemon\<close> of test-utils.js.\<close>

definition validPokemon :: jsstring where
  "validPokemon = js ''Flygon @ Loaded Dice  \<newline>Ability: Levitate  \<newline>Tera Type: Fire  \<newline>EVs: 248 Atk / 6 SpD / 252 Spe  \<newline>Jolly Nature  \<newline>- Dragon Dance  \<newline>- Earthquake  \<newline>- Scale Shot  \<newline>- Fire Punch''"

definition invalidPokemon :: jsstring where
  "invalidPokemon = js ''Flygon @ Loaded Dice  \<newline>Ability: Levitate  \<newline>- Dragon Dance''"

text \<open>An entry whose only \<^verbatim>\<open>@\<close> is on its third line.\<close>

definition lateItemPokemon :: jsstring where
  "lateItemPokemon = js ''Flygon\<newline>Ability: Levitate\<newline>Item @ Loaded Dice\<newline>EVs: 248 Atk / 6 SpD / 252 Spe\<newline>Jolly Nature\<newline>- Dragon Dance\<newline>- Earthquake\<newline>- Scale Shot\<newline>- Fire Punch''"

text \<open>Seven lines, with no \<^verbatim>\<open>@\<close>, no ability line and no nature line.\<close>

definition noItemPokemon :: jsstring where
  "noItemPokemon = js ''Flygon\<newline>Tera Type: Fire\<newline>EVs: 248 Atk / 6 SpD / 252 Spe\<newline>- Dragon Dance\<newline>- Earthquake\<newline>- Scale Shot\<newline>- Fire Punch''"

text \<open>The same with an item in the header: no ability line and no nature line.\<close>

definition noAbilityPokemon :: jsstring where
  "noAbilityPokemon = js ''Flygon @ Loaded Dice\<newline>Tera Type: Fire\<newline>EVs: 248 Atk / 6 SpD / 252 Spe\<newline>- Dragon Dance\<newline>- Earthquake\<newline>- Scale Shot\<newline>- Fire Punch''"

text \<open>Six-line entries that lack the EV line, the nature line, and the move lines.\<close>

definition noEVsPokemon :: jsstring where
  "noEVsPokemon = js ''Flygon @ Loaded Dice\<newline>Ability: Levitate\<newline>Tera Type: Fire\<newline>Jolly Nature\<newline>- Dragon Dance\<newline>- Earthquake''"

definition noNaturePokemon :: jsstring where
  "noNaturePokemon = js ''Flygon @ Loaded Dice\<newline>Ability: Levitate\<newline>Tera Type: Fire\<newline>EVs: 248 Atk / 6 SpD / 252 Spe\<newline>- Dragon Dance\<newline>- Earthquake''"

definition noMovesPokemon :: jsstring where
  "noMovesPokemon = js ''Flygon @ Loaded Dice\<newline>Ability: Levitate\<newline>Tera Type: Fire\<newline>EVs: 248 Atk / 6 SpD / 252 Spe\<newline>Jolly Nature\<newline>IVs: 0 Atk''"

text \<open>A complete entry with a fifth move line.\<close>

definition fiveMovesPokemon :: jsstring where
  "fiveMovesPokemon = js ''Flygon @ Loaded Dice\<newline>Ability: Levitate\<newline>EVs: 248 Atk / 6 SpD / 252 Spe\<newline>Jolly Nature\<newline>- Dragon Dance\<newline>- Earthquake\<newline>- Scale Shot\<newline>- Fire Punch\<newline>- U-turn''"

section \<open>Names for parts of \<^verbatim>\<open>validatePokemon\<close>\<close>

text \<open>\<^verbatim>\<open>moves.length\<close>: the number of trimmed lines that start with \<^verbatim>\<open>-\<close>.\<close>

definition moveCount :: "jsstring \<Rightarrow> nat" where
  "moveCount E = length (filter (\<lambda>line. startsWith line (js ''-'')) (trimmedLines E))"

text \<open>
  The entry gets past every \<^verbatim>\<open>return\<close> that precedes the move count: the length
  check, the five presence checks and the EV spread check.
\<close>

definition passesBeforeMoveCount :: "jsstring \<Rightarrow> bool" where
  "passesBeforeMoveCount E =
     (let lines = trimmedLines E in
      6 \<le> length lines
      \<and> includes_str (lines ! 0) (js ''@'')
      \<and> list_ex (\<lambda>line. startsWith line (js ''Ability:'')) lines
      \<and> list_ex (\<lambda>line. startsWith line (js ''EVs:'')) lines
      \<and> list_ex (\<lambda>line. includes_str line (js ''Nature'')) lines
      \<and> list_ex (\<lambda>line. startsWith line (js ''-'')) lines
      \<and> (case find (\<lambda>line. startsWith line (js ''EVs:'')) lines of
            None \<Rightarrow> True
          | Some evLine \<Rightarrow> validateEVSpread (trim (replace evLine (js ''EVs:'') []))))"

section \<open>Entries of a team\<close>

text \<open>
  A block of text that forms one entry of a team: it is not blank, holds no blank-line
  separator, and neither starts nor ends with a line feed.
\<close>

definition entryBlock :: "jsstring \<Rightarrow> bool" where
  "entryBlock e \<longleftrightarrow>
     trim e \<noteq> [] \<and> \<not> includes_str e (js ''\<newline>\<newline>'') \<and> hd e \<noteq> 0x0A \<and> last e \<noteq> 0x0A"

section \<open>Sample teams\<close>

text \<open>
  \<^verbatim>\<open>sampleTeam\<close> of test-utils.js, two entries, and its second entry alone. Its first
  entry is \<^verbatim>\<open>validPokemon\<close> followed by two spaces.
\<close>

definition galvantula :: jsstring where
  "galvantula = js ''Galvantula @ Focus Sash  \<newline>Ability: Compound Eyes  \<newline>Tera Type: Ghost  \<newline>EVs: 2 HP / 252 SpA / 252 Spe  \<newline>Timid Nature  \<newline>IVs: 0 Atk  \<newline>- Sticky Web  \<newline>- Thunder  \<newline>- Bug Buzz  \<newline>- Thunder Wave''"

definition sampleTeam :: jsstring where
  "sampleTeam = js ''Flygon @ Loaded Dice  \<newline>Ability: Levitate  \<newline>Tera Type: Fire  \<newline>EVs: 248 Atk / 6 SpD / 252 Spe  \<newline>Jolly Nature  \<newline>- Dragon Dance  \<newline>- Earthquake  \<newline>- Scale Shot  \<newline>- Fire Punch  \<newline>\<newline>Galvantula @ Focus Sash  \<newline>Ability: Compound Eyes  \<newline>Tera Type: Ghost  \<newline>EVs: 2 HP / 252 SpA / 252 Spe  \<newline>Timid Nature  \<newline>IVs: 0 Atk  \<newline>- Sticky Web  \<newline>- Thunder  \<newline>- Bug Buzz  \<newline>- Thunder Wave''"

text \<open>
  The formatting example in the system prompt of the server module; its EV line adds up to 508.
\<close>

definition badEVPokemon :: jsstring where
  "badEVPokemon = js ''Flygon @ Loaded Dice  \<newline>Ability: Levitate  \<newline>Tera Type: Fire  \<newline>EVs: 252 Atk / 4 SpD / 252 Spe  \<newline>Jolly Nature  \<newline>- Dragon Dance  \<newline>- Earthquake  \<newline>- Scale Shot  \<newline>- Fire Punch''"

text \<open>
  Six entries separated by blank lines: all well formed; with the 508 entry in third
  place; and with the first two entries separated by a line that holds one space.
\<close>

definition validTeam :: jsstring where
  "validTeam = join (js ''\<newline>\<newline>'')
     [validPokemon, galvantula, validPokemon, galvantula, validPokemon, galvantula]"

definition badTeam :: jsstring where
  "badTeam = join (js ''\<newline>\<newline>'')
     [validPokemon, galvantula, badEVPokemon, galvantula, validPokemon, galvantula]"

definition spaceLineTeam :: jsstring where
  "spaceLineTeam = join (js ''\<newline>\<newline>'')
     [validPokemon @ js ''\<newline> \<newline>'' @ galvantula,
      validPokemon, galvantula, validPokemon, galvantula]"

section \<open>Digit runs and the EV sum\<close>

lemma foldl_parseInt_sum:
  "foldl (\<lambda>sum num. sum + parseInt num) a xs = a + sum_list (map parseInt xs)"
  by (induction xs arbitrary: a) auto

lemma validateEVSpread_iff:
  "validateEVSpread s \<longleftrightarrow> sum_list (map parseInt (matchAll_digits s)) = 506"
  by (cases "matchAll_digits s")
     (auto simp: validateEVSpread_def match_digits_def foldl_parseInt_sum)

lemma whiteSpace_not_digit: "isWhiteSpace c \<Longrightarrow> \<not> isDigit c"
proof
  assume ws: "isWhiteSpace c" and d: "isDigit c"
  have "\<not> (0x2000 \<le> c)"
    using d order_trans [of "0x2000" c "0x39"] by (auto simp: isDigit_def)
  then show False
    using ws d by (auto simp: isWhiteSpace_def isDigit_def)
qed

lemma matchAll_digits_skip:
  "\<forall>c\<in>set p. \<not> isDigit c \<Longrightarrow> matchAll_digits (p @ s) = matchAll_digits s"
  by (induction p) auto

lemma matchAll_digits_tail:
  "\<forall>c\<in>set p. \<not> isDigit c \<Longrightarrow> matchAll_digits (s @ p) = matchAll_digits s"
proof (induction s rule: matchAll_digits.induct)
  case 1
  then show ?case using matchAll_digits_skip [of p "[]"] by simp
next
  case (2 c cs)
  have tw: "takeWhile isDigit p = []" and dw: "dropWhile isDigit p = p"
    using 2(3) by (cases p; simp)+
  show ?case
  proof (cases "isDigit c")
    case True
    have "takeWhile isDigit (cs @ p) = takeWhile isDigit cs"
      by (simp add: takeWhile_append tw) (metis takeWhile_eq_all_conv)
    moreover have "dropWhile isDigit (cs @ p) = dropWhile isDigit cs @ p"
      by (simp add: dropWhile_append dw)
    ultimately show ?thesis using True 2 by simp
  next
    case False
    then show ?thesis using 2 by simp
  qed
qed

lemma trim_decompose:
  "s = takeWhile isWhiteSpace s @ trim s @ rev (takeWhile isWhiteSpace (rev (dropWhile isWhiteSpace s)))"
proof -
  let ?d = "dropWhile isWhiteSpace s"
  have "rev ?d = takeWhile isWhiteSpace (rev ?d) @ dropWhile isWhiteSpace (rev ?d)"
    by simp
  then have "?d = rev (dropWhile isWhiteSpace (rev ?d)) @ rev (takeWhile isWhiteSpace (rev ?d))"
    by (metis rev_append rev_rev_ident)
  then show ?thesis
    unfolding trim_def by (metis takeWhile_dropWhile_id)
qed

lemma matchAll_digits_trim: "matchAll_digits (trim s) = matchAll_digits s"
proof -
  have a: "\<forall>c\<in>set (takeWhile isWhiteSpace s). \<not> isDigit c"
    by (auto dest: set_takeWhileD whiteSpace_not_digit)
  have b: "\<forall>c\<in>set (rev (takeWhile isWhiteSpace (rev (dropWhile isWhiteSpace s)))). \<not> isDigit c"
    by (auto dest: set_takeWhileD whiteSpace_not_digit)
  show ?thesis
    using matchAll_digits_skip [OF a] matchAll_digits_tail [OF b] trim_decompose [of s]
    by metis
qed

lemma replace_prefix: "prefix p s \<Longrightarrow> replace s p [] = drop (length p) s"
  by (cases s) auto

lemma js_EVs_no_digit: "\<forall>c\<in>set (js ''EVs:''). \<not> isDigit c"
  by (simp add: js_def isDigit_def)

lemma evSpread_digits:
  assumes "startsWith ev (js ''EVs:'')"
  shows "matchAll_digits (trim (replace ev (js ''EVs:'') [])) = matchAll_digits ev"
proof -
  from assms obtain r where ev: "ev = js ''EVs:'' @ r"
    by (auto simp: startsWith_def prefix_def)
  have "replace ev (js ''EVs:'') [] = r"
    using replace_prefix [of "js ''EVs:''" ev] by (simp add: ev)
  then show ?thesis
    using matchAll_digits_skip [OF js_EVs_no_digit, of r]
    by (simp add: matchAll_digits_trim ev)
qed

lemma find_startsWith_Some:
  "find P xs = Some x \<Longrightarrow> P x"
  by (auto simp: find_Some_iff)

lemma validatePokemon_decide:
  "validatePokemon E =
     (let lines = trimmedLines E;
          ev = find (\<lambda>line. startsWith line (js ''EVs:'')) lines;
          moves = filter (\<lambda>line. startsWith line (js ''-'')) lines
      in
      if length lines < 6 then Invalid (js ''Pokemon entry too short'')
      else if \<not> includes_str (lines ! 0) (js ''@'') then Invalid (js ''Missing item (@)'')
      else if \<not> (\<exists>l\<in>set lines. startsWith l (js ''Ability:'')) then Invalid (js ''Missing ability'')
      else if ev = None then Invalid (js ''Missing EVs'')
      else if \<not> (\<exists>l\<in>set lines. includes_str l (js ''Nature'')) then Invalid (js ''Missing nature'')
      else if moves = [] then Invalid (js ''Missing moves'')
      else if sum_list (map parseInt (matchAll_digits (the ev))) \<noteq> 506
        then Invalid (js ''Invalid EV spread: '' @ trim (replace (the ev) (js ''EVs:'') []))
      else if length moves \<noteq> 4
        then Invalid (js ''Expected 4 moves, found '' @ toString (length moves))
      else Valid E)"
proof -
  let ?lines = "trimmedLines E"
  let ?P = "\<lambda>line. startsWith line (js ''EVs:'')"
  have ex_find: "list_ex ?P ?lines \<longleftrightarrow> find ?P ?lines \<noteq> None"
    by (auto simp: list_ex_iff find_None_iff)
  have mv: "list_ex (\<lambda>line. startsWith line (js ''-'')) ?lines
      \<longleftrightarrow> filter (\<lambda>line. startsWith line (js ''-'')) ?lines \<noteq> []"
    by (simp add: list_ex_iff filter_empty_conv)
  show ?thesis
  proof (cases "find ?P ?lines")
    case None
    then show ?thesis
      unfolding validatePokemon_def Let_def ex_find mv
      by (simp add: list_ex_iff)
  next
    case (Some ev)
    then have "?P ev" by (rule find_startsWith_Some)
    then have "validateEVSpread (trim (replace ev (js ''EVs:'') []))
        \<longleftrightarrow> sum_list (map parseInt (matchAll_digits ev)) = 506"
      by (simp add: validateEVSpread_iff evSpread_digits)
    then show ?thesis
      unfolding validatePokemon_def Let_def ex_find mv
      by (simp add: list_ex_iff Some)
  qed
qed

lemma parseInt_snoc: "parseInt (xs @ [c]) = 10 * parseInt xs + digitValue c"
  by (simp add: parseInt_def)

lemma digitValue_digit:
  assumes "k < 10"
  shows "digitValue (of_nat (48 + k)) = k"
proof -
  have "unat (word_of_nat (48 + k) :: 16 word) = 48 + k"
    using assms by (intro of_nat_inverse [OF refl]) simp
  then show ?thesis
    by (simp only: digitValue_def)
qed

lemma parseInt_toString: "parseInt (toString n) = n"
proof (induction n rule: toString.induct)
  case (1 n)
  show ?case
  proof (cases "n < 10")
    case True
    then show ?thesis
      using digitValue_digit [of n] by (simp add: toString.simps [of n] parseInt_def)
  next
    case False
    then show ?thesis
      using 1 digitValue_digit [of "n mod 10"]
      by (simp add: toString.simps [of n] parseInt_snoc)
  qed
qed

lemma matchAll_digits_run:
  assumes gap: "\<forall>c\<in>set gap. \<not> isDigit c"
    and run: "run \<noteq> []" "\<forall>c\<in>set run. isDigit c"
    and rest: "rest = [] \<or> \<not> isDigit (hd rest)"
  shows "matchAll_digits (gap @ run @ rest) = run # matchAll_digits rest"
proof -
  obtain c cs where r: "run = c # cs" using run(1) by (cases run) auto
  have tw: "takeWhile isDigit rest = []" and dw: "dropWhile isDigit rest = rest"
    using rest by (cases rest; simp)+
  have "takeWhile isDigit (cs @ rest) = cs" "dropWhile isDigit (cs @ rest) = rest"
    using run(2) r by (simp_all add: takeWhile_append dropWhile_append tw dw)
  then have "matchAll_digits (run @ rest) = run # matchAll_digits rest"
    using run(2) r by simp
  then show ?thesis
    using matchAll_digits_skip [OF gap] by simp
qed

lemma matchAll_digits_no_digit:
  "\<forall>c\<in>set gap. \<not> isDigit c \<Longrightarrow> matchAll_digits gap = []"
  using matchAll_digits_skip [of gap "[]"] by simp

section \<open>Trimming, splitting and joining\<close>

lemma js_nl: "js ''\<newline>'' = [10]"
  by (simp add: js_def)

lemma js_nlnl: "js ''\<newline>\<newline>'' = [10, 10]"
  by (simp add: js_def)

subsection \<open>Trimming\<close>

lemma trim_Nil: "trim [] = []"
  by (simp add: trim_def)

lemma set_trim: "set (trim s) \<subseteq> set s"
  unfolding trim_def by (auto dest!: set_dropWhileD)

lemma trim_eq_Nil_iff: "trim s = [] \<longleftrightarrow> (\<forall>c\<in>set s. isWhiteSpace c)"
proof
  assume "trim s = []"
  then have "\<forall>c\<in>set (dropWhile isWhiteSpace s). isWhiteSpace c"
    by (simp add: trim_def dropWhile_eq_Nil_conv)
  then have "dropWhile isWhiteSpace s = []"
    by (metis hd_dropWhile list.set_sel(1))
  then show "\<forall>c\<in>set s. isWhiteSpace c"
    by (simp add: dropWhile_eq_Nil_conv)
next
  assume "\<forall>c\<in>set s. isWhiteSpace c"
  then show "trim s = []"
    by (auto simp: trim_def dest: set_dropWhileD)
qed

lemma trim_ends:
  assumes "trim s \<noteq> []"
  shows "\<not> isWhiteSpace (hd (trim s))" and "\<not> isWhiteSpace (last (trim s))"
proof -
  let ?d = "dropWhile isWhiteSpace s"
  let ?e = "dropWhile isWhiteSpace (rev ?d)"
  from assms have e: "?e \<noteq> []" by (simp add: trim_def)
  then have d: "?d \<noteq> []" by (metis dropWhile.simps(1) rev.simps(1))
  have "last (trim s) = hd ?e"
    using e by (simp add: trim_def last_rev)
  then show "\<not> isWhiteSpace (last (trim s))"
    using e hd_dropWhile [of isWhiteSpace "rev ?d"] by simp
  have "rev ?d = takeWhile isWhiteSpace (rev ?d) @ ?e" by simp
  then have "last (rev ?d) = last ?e"
    using e by (metis last_appendR)
  moreover have "last (rev ?d) = hd ?d" using d by (simp add: last_rev)
  moreover have "hd (trim s) = last ?e" using e by (simp add: trim_def hd_rev)
  ultimately show "\<not> isWhiteSpace (hd (trim s))"
    using d hd_dropWhile [of isWhiteSpace s] by simp
qed

lemma trim_fixed:
  assumes "s \<noteq> []" "\<not> isWhiteSpace (hd s)" "\<not> isWhiteSpace (last s)"
  shows "trim s = s"
proof -
  from assms have "dropWhile isWhiteSpace s = s"
    by (cases s) auto
  moreover from assms have "dropWhile isWhiteSpace (rev s) = rev s"
    by (cases "rev s") (auto simp: hd_rev)
  ultimately show ?thesis by (simp add: trim_def)
qed

lemma trim_idem: "trim (trim s) = trim s"
proof (cases "trim s = []")
  case True
  then show ?thesis by (simp add: trim_Nil)
next
  case False
  then show ?thesis using trim_ends [OF False] by (intro trim_fixed)
qed

subsection \<open>Splitting on the line feed, joining\<close>

lemma split_str_not_Nil: "split_str sep s \<noteq> []"
  by (induction sep s rule: split_str.induct) (auto split: list.splits)

lemma split_char_Cons:
  "split_str [n] (c # cs) =
     (if c = n then [] # split_str [n] cs
      else (case split_str [n] cs of [] \<Rightarrow> [[c]] | p # ps \<Rightarrow> (c # p) # ps))"
  by simp

lemma split_char_append:
  "split_str [n] (a @ n # b) = split_str [n] a @ split_str [n] b"
proof (induction a)
  case Nil
  then show ?case by simp
next
  case (Cons c a)
  obtain p ps where p: "split_str [n] a = p # ps"
    using split_str_not_Nil [of "[n]" a] by (cases "split_str [n] a") auto
  show ?case
    using Cons p by (simp del: split_str.simps add: split_char_Cons)
qed

lemma split_char_none: "n \<notin> set s \<Longrightarrow> split_str [n] s = [s]"
  by (induction s) auto

lemma split_char_pieces: "p \<in> set (split_str [n] s) \<Longrightarrow> n \<notin> set p"
proof (induction s arbitrary: p)
  case Nil
  then show ?case by simp
next
  case (Cons c s)
  obtain q qs where q: "split_str [n] s = q # qs"
    using split_str_not_Nil [of "[n]" s] by (cases "split_str [n] s") auto
  show ?case
  proof (cases "c = n")
    case True
    with Cons show ?thesis by auto
  next
    case False
    with Cons.prems q have "p = c # q \<or> p \<in> set qs" by simp
    then show ?thesis
      using Cons.IH [of q] Cons.IH [of p] q False by auto
  qed
qed

lemma trimmedLines_Nil: "trimmedLines [] = []"
  by (simp add: trimmedLines_def js_nl trim_Nil)

lemma trimmedLines_append:
  "trimmedLines (a @ 10 # b) = trimmedLines a @ trimmedLines b"
  by (simp add: trimmedLines_def js_nl split_char_append del: split_str.simps)

lemma trimmedLines_line:
  "10 \<notin> set l \<Longrightarrow> trimmedLines l = (if trim l = [] then [] else [trim l])"
  by (simp add: trimmedLines_def js_nl split_char_none del: split_str.simps)

lemma trimmedLines_Cons_nl: "trimmedLines (10 # b) = trimmedLines b"
  using trimmedLines_append [of "[]" b] by (simp add: trimmedLines_Nil)

lemma trimmedLines_join_blank:
  "trimmedLines (join (js ''\<newline>\<newline>'') es) = concat (map trimmedLines es)"
proof (induction es rule: induct_list012)
  case 1
  then show ?case by (simp add: trimmedLines_Nil)
next
  case (2 x)
  then show ?case by simp
next
  case (3 x y zs)
  have "trimmedLines (x @ 10 # 10 # join [10, 10] (y # zs))
      = trimmedLines x @ trimmedLines (join [10, 10] (y # zs))"
    by (simp only: trimmedLines_append trimmedLines_Cons_nl)
  then show ?case using 3 by (simp add: js_nlnl)
qed

lemma trimmedLines_join_lines:
  "\<forall>l\<in>set ls. l \<noteq> [] \<and> 10 \<notin> set l \<and> trim l = l \<Longrightarrow>
     trimmedLines (join (js ''\<newline>'') ls) = ls"
proof (induction ls rule: induct_list012)
  case 1
  then show ?case by (simp add: trimmedLines_Nil)
next
  case (2 x)
  then show ?case by (simp add: trimmedLines_line)
next
  case (3 x y zs)
  have "trimmedLines (x @ 10 # join [10] (y # zs))
      = trimmedLines x @ trimmedLines (join [10] (y # zs))"
    by (rule trimmedLines_append)
  then show ?case using 3 by (simp add: js_nl trimmedLines_line)
qed

subsection \<open>The repair loop keeps the trimmed lines\<close>

lemma fix_step_lines:
  assumes clean: "\<forall>l\<in>set (currentPokemon st). l \<noteq> [] \<and> 10 \<notin> set l \<and> trim l = l"
    and nl: "10 \<notin> set line0"
  shows "(\<forall>l\<in>set (currentPokemon (fix_step line0 st)). l \<noteq> [] \<and> 10 \<notin> set l \<and> trim l = l)
    \<and> concat (map trimmedLines (validatedTeam (fix_step line0 st))) @ currentPokemon (fix_step line0 st)
      = concat (map trimmedLines (validatedTeam st)) @ currentPokemon st
        @ (if trim line0 = [] then [] else [trim line0])"
proof -
  have t: "10 \<notin> set (trim line0)" "trim (trim line0) = trim line0"
    using nl set_trim [of line0] by (auto simp: trim_idem)
  have j: "trimmedLines (join (js ''\<newline>'') (currentPokemon st)) = currentPokemon st"
    using clean by (rule trimmedLines_join_lines)
  show ?thesis
    using clean t j by (simp add: fix_step_def flush_def Let_def)
qed

lemma fix_loop_lines:
  assumes "\<forall>l\<in>set (currentPokemon st). l \<noteq> [] \<and> 10 \<notin> set l \<and> trim l = l"
    and "\<forall>l\<in>set lines. 10 \<notin> set l"
  shows "(\<forall>l\<in>set (currentPokemon (fix_loop lines st)). l \<noteq> [] \<and> 10 \<notin> set l \<and> trim l = l)
    \<and> concat (map trimmedLines (validatedTeam (fix_loop lines st))) @ currentPokemon (fix_loop lines st)
      = concat (map trimmedLines (validatedTeam st)) @ currentPokemon st
        @ filter (\<lambda>line. line \<noteq> []) (map trim lines)"
  using assms
proof (induction lines arbitrary: st)
  case Nil
  then show ?case by simp
next
  case (Cons line0 lines)
  have nl: "10 \<notin> set line0" and rest: "\<forall>l\<in>set lines. 10 \<notin> set l"
    using Cons.prems(2) by simp_all
  note step = fix_step_lines [OF Cons.prems(1) nl]
  note ih = Cons.IH [OF conjunct1 [OF step] rest]
  show ?case
    using ih conjunct2 [OF step] by simp
qed

lemma repair_lines:
  "trimmedLines
     (let lines = split_str (js ''\<newline>'') team;
          st = fix_loop lines \<lparr>pokemonCount = 0, currentPokemon = [], validatedTeam = []\<rparr>;
          st' = (if length (currentPokemon st) > 0 then flush st else st)
      in join (js ''\<newline>\<newline>'') (validatedTeam st'))
   = trimmedLines team"
proof -
  let ?init = "\<lparr>pokemonCount = 0, currentPokemon = [], validatedTeam = []\<rparr>"
  let ?st = "fix_loop (split_str (js ''\<newline>'') team) ?init"
  have pieces: "\<forall>l\<in>set (split_str (js ''\<newline>'') team). 10 \<notin> set l"
    using split_char_pieces [of _ 10 team] by (auto simp: js_nl)
  have "\<forall>l\<in>set (currentPokemon ?init). l \<noteq> [] \<and> 10 \<notin> set l \<and> trim l = l"
    by simp
  note r = fix_loop_lines [OF this pieces]
  have clean: "\<forall>l\<in>set (currentPokemon ?st). l \<noteq> [] \<and> 10 \<notin> set l \<and> trim l = l"
    using r by (rule conjunct1)
  have flat: "concat (map trimmedLines (validatedTeam ?st)) @ currentPokemon ?st
      = trimmedLines team"
    using conjunct2 [OF r] by (simp add: trimmedLines_def)
  have j: "trimmedLines (join (js ''\<newline>'') (currentPokemon ?st)) = currentPokemon ?st"
    using clean by (rule trimmedLines_join_lines)
  show ?thesis
  proof (cases "currentPokemon ?st = []")
    case True
    with flat show ?thesis
      by (simp add: Let_def trimmedLines_join_blank)
  next
    case False
    with flat j show ?thesis
      by (simp add: Let_def trimmedLines_join_blank flush_def)
  qed
qed

subsection \<open>The loop of validateTeam\<close>

lemma valid_result: "valid (validatePokemon e) \<Longrightarrow> validatePokemon e = Valid e"
  unfolding validatePokemon_decide Let_def by (auto split: if_splits)

lemma validateTeam_loop_all_valid:
  "\<forall>e\<in>set es. valid (validatePokemon e) \<Longrightarrow>
     validateTeam_loop n i es acc =
       TeamValid n (acc @ map (\<lambda>(j, e). \<lparr>index = j, result = Valid e\<rparr>) (enumerate (i + 1) es))"
  by (induction es arbitrary: i acc) (simp_all add: valid_result Let_def)

lemma validateTeam_loop_first_invalid:
  "\<forall>e\<in>set pre. valid (validatePokemon e) \<Longrightarrow> \<not> valid (validatePokemon bad) \<Longrightarrow>
     validateTeam_loop n i (pre @ bad # post) acc =
       TeamInvalid (js ''Pokemon '' @ toString (i + length pre + 1) @ js '': ''
                      @ error (validatePokemon bad))
         (Some (acc @ map (\<lambda>(j, e). \<lparr>index = j, result = validatePokemon e\<rparr>)
                        (enumerate (i + 1) (pre @ [bad]))))"
  by (induction pre arbitrary: i acc) (simp_all add: Let_def)

subsection \<open>Splitting on the blank-line separator\<close>

lemma includes_pair_skip:
  "\<not> includes_str a [n, n] \<Longrightarrow> (a \<noteq> [] \<Longrightarrow> last a \<noteq> n) \<Longrightarrow>
     includes_str (a @ r) [n, n] = includes_str r [n, n]"
proof (induction a)
  case Nil
  then show ?case by simp
next
  case (Cons c a)
  show ?case
  proof (cases a)
    case Nil
    with Cons.prems show ?thesis by simp
  next
    case (Cons d a')
    with Cons.prems Cons.IH show ?thesis by auto
  qed
qed

lemma split_pair_first:
  "\<not> includes_str a [n, n] \<Longrightarrow> (a \<noteq> [] \<Longrightarrow> last a \<noteq> n) \<Longrightarrow>
     split_str [n, n] (a @ n # n # rest) = a # split_str [n, n] rest"
proof (induction a)
  case Nil
  then show ?case by simp
next
  case (Cons c a)
  show ?case
  proof (cases a)
    case Nil
    with Cons.prems show ?thesis by simp
  next
    case (Cons d a')
    with Cons.prems Cons.IH show ?thesis by auto
  qed
qed

lemma split_pair_none: "\<not> includes_str a [n, n] \<Longrightarrow> split_str [n, n] a = [a]"
  by (induction a) auto

lemma split_join_blocks:
  "es \<noteq> [] \<Longrightarrow> \<forall>e\<in>set es. \<not> includes_str e [n, n] \<and> (e \<noteq> [] \<longrightarrow> last e \<noteq> n) \<Longrightarrow>
     split_str [n, n] (join [n, n] es) = es"
proof (induction es rule: induct_list012)
  case 1
  then show ?case by simp
next
  case (2 x)
  then show ?case by (simp add: split_pair_none)
next
  case (3 x y zs)
  then have "split_str [n, n] (x @ n # n # join [n, n] (y # zs))
      = x # split_str [n, n] (join [n, n] (y # zs))"
    by (intro split_pair_first) simp_all
  with 3 show ?case by simp
qed

lemma entryBlock_not_Nil: "entryBlock e \<Longrightarrow> e \<noteq> []"
  by (auto simp: entryBlock_def trim_Nil)

lemma pokemonEntries_join:
  assumes "es \<noteq> []" and "list_all entryBlock es"
  shows "pokemonEntries (join (js ''\<newline>\<newline>'') es) = es"
proof -
  have "\<forall>e\<in>set es. \<not> includes_str e [10, 10] \<and> (e \<noteq> [] \<longrightarrow> last e \<noteq> 10)"
    using assms(2) by (auto simp: list_all_iff entryBlock_def js_nlnl)
  then have "split_str [10, 10] (join [10, 10] es) = es"
    using assms(1) by (intro split_join_blocks)
  moreover have "filter (\<lambda>entry. trim entry \<noteq> []) es = es"
    using assms(2) by (auto simp: list_all_iff entryBlock_def intro: filter_True)
  ultimately show ?thesis
    by (simp add: pokemonEntries_def js_nlnl)
qed

lemma entryBlock_merge:
  assumes a: "entryBlock a" and b: "entryBlock b"
    and w: "w \<noteq> []" "list_all (\<lambda>c. isWhiteSpace c \<and> c \<noteq> 0x0A) w"
  shows "entryBlock (a @ js ''\<newline>'' @ w @ js ''\<newline>'' @ b)"
proof -
  have ne: "a \<noteq> []" "b \<noteq> []"
    using a b by (auto dest: entryBlock_not_Nil)
  have wn: "10 \<notin> set w"
    using w(2) by (auto simp: list_all_iff)
  have "\<exists>c\<in>set a. \<not> isWhiteSpace c"
    using a by (simp add: entryBlock_def trim_eq_Nil_iff)
  then have t: "trim (a @ 10 # w @ 10 # b) \<noteq> []"
    by (auto simp: trim_eq_Nil_iff)
  have "includes_str (a @ 10 # w @ 10 # b) [10, 10] = includes_str (10 # w @ 10 # b) [10, 10]"
    using a ne by (intro includes_pair_skip) (simp_all add: entryBlock_def js_nlnl)
  also have "\<dots> = includes_str (w @ 10 # b) [10, 10]"
    using w(1) wn by (cases w) auto
  also have "\<dots> = includes_str (10 # b) [10, 10]"
  proof (intro includes_pair_skip)
    show "\<not> includes_str w [10, 10]"
      using wn by (induction w) auto
    show "last w \<noteq> 10" using w(1) wn last_in_set by metis
  qed
  also have "\<dots> = False"
    using b ne(2) by (cases b) (auto simp: entryBlock_def js_nlnl)
  finally have i: "\<not> includes_str (a @ 10 # w @ 10 # b) [10, 10]" by simp
  have "hd (a @ 10 # w @ 10 # b) \<noteq> 10" "last (a @ 10 # w @ 10 # b) \<noteq> 10"
    using a b ne by (simp_all add: entryBlock_def)
  with t i show ?thesis
    by (simp add: entryBlock_def js_nl js_nlnl)
qed

section \<open>The sample inputs, evaluated\<close>

lemma validPokemon_lines:
  "trimmedLines validPokemon =
     [js ''Flygon @ Loaded Dice'', js ''Ability: Levitate'', js ''Tera Type: Fire'',
      js ''EVs: 248 Atk / 6 SpD / 252 Spe'', js ''Jolly Nature'', js ''- Dragon Dance'',
      js ''- Earthquake'', js ''- Scale Shot'', js ''- Fire Punch'']"
  by code_simp

lemma invalidPokemon_lines:
  "trimmedLines invalidPokemon =
     [js ''Flygon @ Loaded Dice'', js ''Ability: Levitate'', js ''- Dragon Dance'']"
  by code_simp

lemma lateItemPokemon_lines:
  "trimmedLines lateItemPokemon =
     [js ''Flygon'', js ''Ability: Levitate'', js ''Item @ Loaded Dice'',
      js ''EVs: 248 Atk / 6 SpD / 252 Spe'', js ''Jolly Nature'', js ''- Dragon Dance'',
      js ''- Earthquake'', js ''- Scale Shot'', js ''- Fire Punch'']"
  by code_simp

lemma noItemPokemon_lines:
  "trimmedLines noItemPokemon =
     [js ''Flygon'', js ''Tera Type: Fire'', js ''EVs: 248 Atk / 6 SpD / 252 Spe'',
      js ''- Dragon Dance'', js ''- Earthquake'', js ''- Scale Shot'', js ''- Fire Punch'']"
  by code_simp

lemma noAbilityPokemon_lines:
  "trimmedLines noAbilityPokemon =
     [js ''Flygon @ Loaded Dice'', js ''Tera Type: Fire'', js ''EVs: 248 Atk / 6 SpD / 252 Spe'',
      js ''- Dragon Dance'', js ''- Earthquake'', js ''- Scale Shot'', js ''- Fire Punch'']"
  by code_simp

lemma noEVsPokemon_lines:
  "trimmedLines noEVsPokemon =
     [js ''Flygon @ Loaded Dice'', js ''Ability: Levitate'', js ''Tera Type: Fire'',
      js ''Jolly Nature'', js ''- Dragon Dance'', js ''- Earthquake'']"
  by code_simp

lemma noNaturePokemon_lines:
  "trimmedLines noNaturePokemon =
     [js ''Flygon @ Loaded Dice'', js ''Ability: Levitate'', js ''Tera Type: Fire'',
      js ''EVs: 248 Atk / 6 SpD / 252 Spe'', js ''- Dragon Dance'', js ''- Earthquake'']"
  by code_simp

lemma noMovesPokemon_lines:
  "trimmedLines noMovesPokemon =
     [js ''Flygon @ Loaded Dice'', js ''Ability: Levitate'', js ''Tera Type: Fire'',
      js ''EVs: 248 Atk / 6 SpD / 252 Spe'', js ''Jolly Nature'', js ''IVs: 0 Atk'']"
  by code_simp

lemma fiveMovesPokemon_lines:
  "trimmedLines fiveMovesPokemon =
     [js ''Flygon @ Loaded Dice'', js ''Ability: Levitate'',
      js ''EVs: 248 Atk / 6 SpD / 252 Spe'', js ''Jolly Nature'', js ''- Dragon Dance'',
      js ''- Earthquake'', js ''- Scale Shot'', js ''- Fire Punch'', js ''- U-turn'']"
  by code_simp

lemma sample_evLine_sum:
  "sum_list (map parseInt (matchAll_digits (js ''EVs: 248 Atk / 6 SpD / 252 Spe''))) = 506"
  by code_simp

lemma sample_evSpread_ok:
  "validateEVSpread (trim (replace (js ''EVs: 248 Atk / 6 SpD / 252 Spe'') (js ''EVs:'') []))"
  by code_simp

lemma validPokemon_valid: "validatePokemon validPokemon = Valid validPokemon"
  by code_simp

lemma galvantula_valid: "validatePokemon galvantula = Valid galvantula"
  by code_simp

lemma badEVPokemon_invalid:
  "validatePokemon badEVPokemon = Invalid (js ''Invalid EV spread: 252 Atk / 4 SpD / 252 Spe'')"
  by code_simp

lemma sample_blocks:
  "entryBlock validPokemon" "entryBlock galvantula" "entryBlock badEVPokemon"
  by code_simp+

lemma sampleTeam_entries:
  "pokemonEntries sampleTeam = [validPokemon @ js ''  '', galvantula]"
  by code_simp

lemma validTeam_entries:
  "pokemonEntries validTeam =
     [validPokemon, galvantula, validPokemon, galvantula, validPokemon, galvantula]"
  unfolding validTeam_def by (intro pokemonEntries_join) (simp_all add: sample_blocks)

lemma badTeam_entries:
  "pokemonEntries badTeam =
     [validPokemon, galvantula, badEVPokemon, galvantula, validPokemon, galvantula]"
  unfolding badTeam_def by (intro pokemonEntries_join) (simp_all add: sample_blocks)

lemma validTeam_valid: "team_valid (validateTeam validTeam)"
proof -
  have all: "\<forall>e\<in>set (pokemonEntries validTeam). valid (validatePokemon e)"
    by (simp add: validTeam_entries validPokemon_valid galvantula_valid)
  have len: "length (pokemonEntries validTeam) = 6"
    by (simp add: validTeam_entries)
  have "validateTeam validTeam = validateTeam_loop 6 0 (pokemonEntries validTeam) []"
    using len by (simp add: validateTeam_def Let_def)
  then show ?thesis
    using validateTeam_loop_all_valid [OF all, of 6 0 "[]"] by simp
qed

lemma invalidPokemon_raw_lines:
  "split_str (js ''\<newline>'') invalidPokemon =
     [js ''Flygon @ Loaded Dice  '', js ''Ability: Levitate  '', js ''- Dragon Dance'']"
  by code_simp

lemma invalidPokemon_fixed:
  "validateAndFixTeam invalidPokemon =
     js ''Flygon @ Loaded Dice\<newline>Ability: Levitate\<newline>- Dragon Dance''"
  by code_simp

lemma invalidPokemon_fixed_lines:
  "split_str (js ''\<newline>'') (js ''Flygon @ Loaded Dice\<newline>Ability: Levitate\<newline>- Dragon Dance'') =
     [js ''Flygon @ Loaded Dice'', js ''Ability: Levitate'', js ''- Dragon Dance'']"
  by code_simp

section \<open>When an entry is valid (C1)\<close>

text \<open>
  C1, amended. \<^verbatim>\<open>validatePokemon\<close> returns valid if and only if the entry has at
  least 6 trimmed non-empty lines, the first of them contains \<^verbatim>\<open>@\<close>, some line
  starts with \<^verbatim>\<open>Ability:\<close>, some line starts with \<^verbatim>\<open>EVs:\<close>, some line contains
  \<^verbatim>\<open>Nature\<close>, exactly 4 lines start with \<^verbatim>\<open>-\<close>, and the decimal digit runs of
  the first line starting with \<^verbatim>\<open>EVs:\<close> add up to 506.
\<close>

theorem validatePokemon_valid_iff:
  "valid (validatePokemon E) \<longleftrightarrow>
     (let lines = trimmedLines E in
      6 \<le> length lines
      \<and> includes_str (lines ! 0) (js ''@'')
      \<and> (\<exists>l\<in>set lines. startsWith l (js ''Ability:''))
      \<and> (\<exists>l\<in>set lines. startsWith l (js ''EVs:''))
      \<and> (\<exists>l\<in>set lines. includes_str l (js ''Nature''))
      \<and> length (filter (\<lambda>l. startsWith l (js ''-'')) lines) = 4
      \<and> (case find (\<lambda>l. startsWith l (js ''EVs:'')) lines of
            None \<Rightarrow> False
          | Some evLine \<Rightarrow> sum_list (map parseInt (matchAll_digits evLine)) = 506))"
  unfolding validatePokemon_decide Let_def
  by (auto simp: find_None_iff split: option.splits)

theorem validatePokemon_valid_iff_witness:
  "valid (validatePokemon validPokemon)"
proof -
  have ev: "find (\<lambda>l. startsWith l (js ''EVs:'')) (trimmedLines validPokemon)
      = Some (js ''EVs: 248 Atk / 6 SpD / 252 Spe'')"
    by (simp add: validPokemon_lines js_def startsWith_def)
  have "(let lines = trimmedLines validPokemon in
      6 \<le> length lines
      \<and> includes_str (lines ! 0) (js ''@'')
      \<and> (\<exists>l\<in>set lines. startsWith l (js ''Ability:''))
      \<and> (\<exists>l\<in>set lines. startsWith l (js ''EVs:''))
      \<and> (\<exists>l\<in>set lines. includes_str l (js ''Nature''))
      \<and> length (filter (\<lambda>l. startsWith l (js ''-'')) lines) = 4
      \<and> (case find (\<lambda>l. startsWith l (js ''EVs:'')) lines of
            None \<Rightarrow> False
          | Some evLine \<Rightarrow> sum_list (map parseInt (matchAll_digits evLine)) = 506))"
    unfolding Let_def ev option.case sample_evLine_sum
    by (simp add: validPokemon_lines js_def startsWith_def)
  then show ?thesis using validatePokemon_valid_iff [of validPokemon] by blast
qed

text \<open>
  C1 as stated asks only that the entry contain \<^verbatim>\<open>@\<close> somewhere. This entry has it
  on the third line and meets every other condition, and is rejected.
\<close>

theorem validatePokemon_item_anywhere_counterexample:
  "6 \<le> length (trimmedLines lateItemPokemon)
   \<and> includes_str lateItemPokemon (js ''@'')
   \<and> (\<exists>l\<in>set (trimmedLines lateItemPokemon). startsWith l (js ''Ability:''))
   \<and> (\<exists>l\<in>set (trimmedLines lateItemPokemon). startsWith l (js ''EVs:''))
   \<and> (\<exists>l\<in>set (trimmedLines lateItemPokemon). includes_str l (js ''Nature''))
   \<and> length (filter (\<lambda>l. startsWith l (js ''-'')) (trimmedLines lateItemPokemon)) = 4
   \<and> map (\<lambda>l. sum_list (map parseInt (matchAll_digits l)))
         (filter (\<lambda>l. startsWith l (js ''EVs:'')) (trimmedLines lateItemPokemon)) = [506]
   \<and> validatePokemon lateItemPokemon = Invalid (js ''Missing item (@)'')"
proof -
  have at: "includes_str lateItemPokemon (js ''@'')"
    by (simp add: lateItemPokemon_def js_def)
  have evs: "filter (\<lambda>l. startsWith l (js ''EVs:'')) (trimmedLines lateItemPokemon)
      = [js ''EVs: 248 Atk / 6 SpD / 252 Spe'']"
    by (simp add: lateItemPokemon_lines js_def startsWith_def)
  have rest: "6 \<le> length (trimmedLines lateItemPokemon)
     \<and> (\<exists>l\<in>set (trimmedLines lateItemPokemon). startsWith l (js ''Ability:''))
     \<and> (\<exists>l\<in>set (trimmedLines lateItemPokemon). startsWith l (js ''EVs:''))
     \<and> (\<exists>l\<in>set (trimmedLines lateItemPokemon). includes_str l (js ''Nature''))
     \<and> length (filter (\<lambda>l. startsWith l (js ''-'')) (trimmedLines lateItemPokemon)) = 4"
    by (simp add: lateItemPokemon_lines js_def startsWith_def)
  have res: "validatePokemon lateItemPokemon = Invalid (js ''Missing item (@)'')"
    by (simp add: validatePokemon_def lateItemPokemon_lines js_def)
  show ?thesis
    using at rest res by (simp add: evs sample_evLine_sum)
qed

section \<open>The repair pass keeps the lines (C2)\<close>

text \<open>
  C2, amended. For every input text, the trimmed non-empty lines of the output of
  \<^verbatim>\<open>validateAndFixTeam\<close> are the trimmed non-empty lines of the input, in the same
  order and so also as a multiset: the repair pass re-groups the lines into entries and
  neither adds nor drops a line. The lines themselves need not come back unchanged: a
  line that the pass stores is stored trimmed.
\<close>

theorem validateAndFixTeam_keeps_trimmed_lines:
  "trimmedLines (validateAndFixTeam T) = trimmedLines T
   \<and> mset (trimmedLines (validateAndFixTeam T)) = mset (trimmedLines T)"
proof -
  have "trimmedLines (validateAndFixTeam T) = trimmedLines T"
  proof (cases "team_valid (validateTeam T)")
    case True
    then show ?thesis by (simp add: validateAndFixTeam_def)
  next
    case False
    then show ?thesis
      using repair_lines [of T] by (simp add: validateAndFixTeam_def Let_def)
  qed
  then show ?thesis by simp
qed

text \<open>
  C2 as stated compares the lines themselves. The incomplete entry of test-utils.js
  is not a valid team, so it is repaired; its first line ends in two spaces, and the
  output holds that line without them.
\<close>

theorem validateAndFixTeam_raw_lines_counterexample:
  "mset (filter (\<lambda>line. trim line \<noteq> []) (split_str (js ''\<newline>'') (validateAndFixTeam invalidPokemon)))
     \<noteq> mset (filter (\<lambda>line. trim line \<noteq> []) (split_str (js ''\<newline>'') invalidPokemon))
   \<and> mset (filter (\<lambda>line. line \<noteq> []) (split_str (js ''\<newline>'') (validateAndFixTeam invalidPokemon)))
     \<noteq> mset (filter (\<lambda>line. line \<noteq> []) (split_str (js ''\<newline>'') invalidPokemon))"
proof -
  let ?l = "js ''Flygon @ Loaded Dice  ''"
  have t: "trim ?l \<noteq> []" "?l \<noteq> []"
    by (simp_all add: trim_eq_Nil_iff js_def isWhiteSpace_def)
  have in_raw: "?l \<in> set (split_str (js ''\<newline>'') invalidPokemon)"
    by (simp add: invalidPokemon_raw_lines)
  have not_fixed: "?l \<notin> set (split_str (js ''\<newline>'') (validateAndFixTeam invalidPokemon))"
    unfolding invalidPokemon_fixed invalidPokemon_fixed_lines by (simp add: js_def)
  have "set_mset (mset (filter (\<lambda>line. trim line \<noteq> []) (split_str (js ''\<newline>'') (validateAndFixTeam invalidPokemon))))
     \<noteq> set_mset (mset (filter (\<lambda>line. trim line \<noteq> []) (split_str (js ''\<newline>'') invalidPokemon)))"
    using t in_raw not_fixed by auto
  moreover have "set_mset (mset (filter (\<lambda>line. line \<noteq> []) (split_str (js ''\<newline>'') (validateAndFixTeam invalidPokemon))))
     \<noteq> set_mset (mset (filter (\<lambda>line. line \<noteq> []) (split_str (js ''\<newline>'') invalidPokemon)))"
    using t in_raw not_fixed by auto
  ultimately show ?thesis by metis
qed

section \<open>Repair of a valid team (C3)\<close>

text \<open>
  C3. On every team text that \<^verbatim>\<open>validateTeam\<close> accepts, \<^verbatim>\<open>validateAndFixTeam\<close>
  returns the text itself.
\<close>

theorem validateAndFixTeam_valid_unchanged:
  "team_valid (validateTeam T) \<Longrightarrow> validateAndFixTeam T = T"
  by (simp add: validateAndFixTeam_def)

theorem validateAndFixTeam_valid_unchanged_witness:
  "team_valid (validateTeam validTeam) \<and> validateAndFixTeam validTeam = validTeam"
  using validateAndFixTeam_valid_unchanged [OF validTeam_valid] validTeam_valid by simp

section \<open>The number of entries (C4)\<close>

text \<open>
  C4. \<^verbatim>\<open>validateTeam\<close> splits the text on the two-line-feed separator and drops the
  candidates that are empty after trimming. If the number \<open>n\<close> of candidates left is
  not 6, the result is invalid with the reason \<^verbatim>\<open>Expected 6 Pokemon, found n\<close>, \<open>n\<close>
  written in decimal, and carries no per-entry detail: no entry is looked at. The
  two-entry sample of test-utils.js gets \<^verbatim>\<open>Expected 6 Pokemon, found 2\<close>.
\<close>

theorem validateTeam_wrong_count:
  "(let n = length (filter (\<lambda>entry. trim entry \<noteq> []) (split_str (js ''\<newline>\<newline>'') T)) in
    (n \<noteq> 6 \<longrightarrow>
       validateTeam T = TeamInvalid (js ''Expected 6 Pokemon, found '' @ toString n) None)
    \<and> parseInt (toString n) = n)"
  by (simp add: validateTeam_def pokemonEntries_def Let_def parseInt_toString)

theorem validateTeam_wrong_count_witness:
  "validateTeam sampleTeam = TeamInvalid (js ''Expected 6 Pokemon, found 2'') None"
proof -
  have n: "length (filter (\<lambda>entry. trim entry \<noteq> []) (split_str (js ''\<newline>\<newline>'') sampleTeam)) = 2"
    using sampleTeam_entries by (simp add: pokemonEntries_def)
  have t: "js ''Expected 6 Pokemon, found '' @ toString 2 = js ''Expected 6 Pokemon, found 2''"
    by (simp add: toString.simps js_def)
  show ?thesis
    using validateTeam_wrong_count [of sampleTeam] by (simp add: n t)
qed

section \<open>The entries in order (C5)\<close>

text \<open>
  C5. When there are exactly 6 candidates, \<^verbatim>\<open>validateTeam\<close> validates them in order,
  numbering them from 1. If all pass, the result is valid with count 6 and one detail
  per entry. Otherwise, with \<open>pre\<close> the entries before the first failing one
  \<open>bad\<close>, the result is invalid with the reason \<^verbatim>\<open>Pokemon k: reason\<close>, where
  \<open>k\<close> is the position of \<open>bad\<close> and \<open>reason\<close> its own reason, and carries the details
  of \<open>pre\<close> and of \<open>bad\<close> only: the entries after \<open>bad\<close> play no role.
\<close>

theorem validateTeam_entries_in_order:
  assumes "length (pokemonEntries T) = 6"
  shows "((\<forall>e\<in>set (pokemonEntries T). valid (validatePokemon e)) \<longrightarrow>
            validateTeam T =
              TeamValid 6 (map (\<lambda>(j, e). \<lparr>index = j, result = Valid e\<rparr>)
                             (enumerate 1 (pokemonEntries T))))
       \<and> (pokemonEntries T = pre @ bad # post
            \<and> (\<forall>e\<in>set pre. valid (validatePokemon e)) \<and> \<not> valid (validatePokemon bad) \<longrightarrow>
            validateTeam T =
              TeamInvalid (js ''Pokemon '' @ toString (length pre + 1) @ js '': ''
                             @ error (validatePokemon bad))
                (Some (map (\<lambda>(j, e). \<lparr>index = j, result = validatePokemon e\<rparr>)
                         (enumerate 1 (pre @ [bad])))))"
proof (intro conjI impI)
  assume "\<forall>e\<in>set (pokemonEntries T). valid (validatePokemon e)"
  then show "validateTeam T =
      TeamValid 6 (map (\<lambda>(j, e). \<lparr>index = j, result = Valid e\<rparr>) (enumerate 1 (pokemonEntries T)))"
    using assms validateTeam_loop_all_valid [of "pokemonEntries T" 6 0 "[]"]
    by (simp add: validateTeam_def Let_def)
next
  assume a: "pokemonEntries T = pre @ bad # post
      \<and> (\<forall>e\<in>set pre. valid (validatePokemon e)) \<and> \<not> valid (validatePokemon bad)"
  then have "validateTeam_loop 6 0 (pre @ bad # post) [] =
      TeamInvalid (js ''Pokemon '' @ toString (0 + length pre + 1) @ js '': ''
                     @ error (validatePokemon bad))
        (Some ([] @ map (\<lambda>(j, e). \<lparr>index = j, result = validatePokemon e\<rparr>)
                       (enumerate (0 + 1) (pre @ [bad]))))"
    by (intro validateTeam_loop_first_invalid) simp_all
  then show "validateTeam T =
      TeamInvalid (js ''Pokemon '' @ toString (length pre + 1) @ js '': ''
                     @ error (validatePokemon bad))
        (Some (map (\<lambda>(j, e). \<lparr>index = j, result = validatePokemon e\<rparr>)
                 (enumerate 1 (pre @ [bad]))))"
    using assms a by (simp add: validateTeam_def Let_def)
qed

theorem validateTeam_entries_in_order_witness:
  "validateTeam validTeam =
     TeamValid 6
       [\<lparr>index = 1, result = Valid validPokemon\<rparr>, \<lparr>index = 2, result = Valid galvantula\<rparr>,
        \<lparr>index = 3, result = Valid validPokemon\<rparr>, \<lparr>index = 4, result = Valid galvantula\<rparr>,
        \<lparr>index = 5, result = Valid validPokemon\<rparr>, \<lparr>index = 6, result = Valid galvantula\<rparr>]
   \<and> validateTeam badTeam =
     TeamInvalid (js ''Pokemon 3: Invalid EV spread: 252 Atk / 4 SpD / 252 Spe'')
       (Some [\<lparr>index = 1, result = Valid validPokemon\<rparr>, \<lparr>index = 2, result = Valid galvantula\<rparr>,
              \<lparr>index = 3,
               result = Invalid (js ''Invalid EV spread: 252 Atk / 4 SpD / 252 Spe'')\<rparr>])"
proof
  have len: "length (pokemonEntries validTeam) = 6"
    by (simp add: validTeam_entries)
  have all: "\<forall>e\<in>set (pokemonEntries validTeam). valid (validatePokemon e)"
    by (simp add: validTeam_entries validPokemon_valid galvantula_valid)
  from validateTeam_entries_in_order [OF len] all
  show "validateTeam validTeam =
     TeamValid 6
       [\<lparr>index = 1, result = Valid validPokemon\<rparr>, \<lparr>index = 2, result = Valid galvantula\<rparr>,
        \<lparr>index = 3, result = Valid validPokemon\<rparr>, \<lparr>index = 4, result = Valid galvantula\<rparr>,
        \<lparr>index = 5, result = Valid validPokemon\<rparr>, \<lparr>index = 6, result = Valid galvantula\<rparr>]"
    by (simp add: validTeam_entries)
next
  have len: "length (pokemonEntries badTeam) = 6"
    by (simp add: badTeam_entries)
  have split: "pokemonEntries badTeam =
      [validPokemon, galvantula] @ badEVPokemon # [galvantula, validPokemon, galvantula]"
    by (simp add: badTeam_entries)
  have pre: "\<forall>e\<in>set [validPokemon, galvantula]. valid (validatePokemon e)"
    by (simp add: validPokemon_valid galvantula_valid)
  have bad: "\<not> valid (validatePokemon badEVPokemon)"
    by (simp add: badEVPokemon_invalid)
  have "toString (Suc (Suc (Suc 0))) = js ''3''"
    by (simp add: toString.simps js_def)
  then have t: "js ''Pokemon '' @ toString (Suc (Suc (Suc 0))) @ js '': ''
        @ js ''Invalid EV spread: 252 Atk / 4 SpD / 252 Spe''
      = js ''Pokemon 3: Invalid EV spread: 252 Atk / 4 SpD / 252 Spe''"
    by (simp add: js_def)
  from validateTeam_entries_in_order
    [OF len, of "[validPokemon, galvantula]" badEVPokemon "[galvantula, validPokemon, galvantula]"]
    split pre bad
  show "validateTeam badTeam =
     TeamInvalid (js ''Pokemon 3: Invalid EV spread: 252 Atk / 4 SpD / 252 Spe'')
       (Some [\<lparr>index = 1, result = Valid validPokemon\<rparr>, \<lparr>index = 2, result = Valid galvantula\<rparr>,
              \<lparr>index = 3,
               result = Invalid (js ''Invalid EV spread: 252 Atk / 4 SpD / 252 Spe'')\<rparr>])"
    by (simp add: validPokemon_valid galvantula_valid badEVPokemon_invalid t)
qed

section \<open>The EV sum (C6)\<close>

text \<open>
  C6. \<^verbatim>\<open>validateEVSpread\<close> adds up every maximal run of decimal digits of its
  argument, whatever text stands next to the numbers, and returns true exactly when the
  total is 506. The runs are maximal: in a text that starts with characters that are
  not digits, then digits, then nothing or a character that is not a digit, the first
  match is the digits in between; a text without digits has no match.
  \<^verbatim>\<open>"252 Atk / 2 HP / 252 Spe"\<close> totals 506 and is accepted;
  \<^verbatim>\<open>"252 Atk / 4 HP / 252 Spe"\<close> totals 508 and is rejected.
\<close>

theorem validateEVSpread_sum_506:
  "(validateEVSpread s \<longleftrightarrow> sum_list (map parseInt (matchAll_digits s)) = 506)
   \<and> (list_all (\<lambda>c. \<not> isDigit c) gap \<and> run \<noteq> [] \<and> list_all isDigit run
        \<and> (rest = [] \<or> \<not> isDigit (hd rest))
      \<longrightarrow> matchAll_digits (gap @ run @ rest) = run # matchAll_digits rest)
   \<and> (list_all (\<lambda>c. \<not> isDigit c) gap \<longrightarrow> matchAll_digits gap = [])
   \<and> validateEVSpread (js ''252 Atk / 2 HP / 252 Spe'')
   \<and> sum_list (map parseInt (matchAll_digits (js ''252 Atk / 2 HP / 252 Spe''))) = 506
   \<and> \<not> validateEVSpread (js ''252 Atk / 4 HP / 252 Spe'')
   \<and> sum_list (map parseInt (matchAll_digits (js ''252 Atk / 4 HP / 252 Spe''))) = 508"
proof -
  have b: "sum_list (map parseInt (matchAll_digits (js ''252 Atk / 2 HP / 252 Spe''))) = 506"
    by code_simp
  have d: "sum_list (map parseInt (matchAll_digits (js ''252 Atk / 4 HP / 252 Spe''))) = 508"
    by code_simp
  have a: "validateEVSpread (js ''252 Atk / 2 HP / 252 Spe'')"
    by (simp add: validateEVSpread_iff b)
  have c: "\<not> validateEVSpread (js ''252 Atk / 4 HP / 252 Spe'')"
    by (simp add: validateEVSpread_iff d)
  have r: "list_all (\<lambda>c. \<not> isDigit c) gap \<and> run \<noteq> [] \<and> list_all isDigit run
        \<and> (rest = [] \<or> \<not> isDigit (hd rest))
      \<longrightarrow> matchAll_digits (gap @ run @ rest) = run # matchAll_digits rest"
    using matchAll_digits_run [of gap run rest] by (simp add: list_all_iff)
  have g: "list_all (\<lambda>c. \<not> isDigit c) gap \<longrightarrow> matchAll_digits gap = []"
    using matchAll_digits_no_digit [of gap] by (simp add: list_all_iff)
  show ?thesis using a b c d r g validateEVSpread_iff by blast
qed

theorem validateEVSpread_sum_506_witness:
  "matchAll_digits (js ''252 Atk / 2 HP / 252 Spe'')
     = js ''252'' # matchAll_digits (js '' Atk / 2 HP / 252 Spe'')
   \<and> matchAll_digits (js '' Spe'') = []"
proof -
  have h: "list_all (\<lambda>c. \<not> isDigit c) [] \<and> js ''252'' \<noteq> [] \<and> list_all isDigit (js ''252'')
      \<and> (js '' Atk / 2 HP / 252 Spe'' = [] \<or> \<not> isDigit (hd (js '' Atk / 2 HP / 252 Spe'')))"
    by (simp add: js_def isDigit_def)
  have e: "[] @ js ''252'' @ js '' Atk / 2 HP / 252 Spe'' = js ''252 Atk / 2 HP / 252 Spe''"
    by (simp add: js_def)
  have k: "list_all (\<lambda>c. \<not> isDigit c) (js '' Spe'')"
    by (simp add: js_def isDigit_def)
  from validateEVSpread_sum_506 [of _ "[]" "js ''252''" "js '' Atk / 2 HP / 252 Spe''"] h
  have 1: "matchAll_digits (js ''252 Atk / 2 HP / 252 Spe'')
     = js ''252'' # matchAll_digits (js '' Atk / 2 HP / 252 Spe'')"
    unfolding e by blast
  from validateEVSpread_sum_506 [of _ "js '' Spe''"] k
  have 2: "matchAll_digits (js '' Spe'') = []"
    by blast
  from 1 2 show ?thesis by simp
qed

section \<open>First failure wins (C7)\<close>

text \<open>
  C7. \<^verbatim>\<open>validatePokemon\<close> evaluates its checks in the fixed order line count,
  item marker, ability, EVs present, nature, moves present, EV sum, move count, and
  returns the reason of the first check that fails and nothing else. In particular an
  entry that lacks both an ability line and a nature line, once past the two checks the
  order puts before them (at least 6 lines, \<^verbatim>\<open>@\<close> in the first line), is rejected
  with the missing-ability reason alone: the ability check comes before the nature check.
\<close>

theorem validatePokemon_first_failure:
  "validatePokemon E =
     (case first_failure (spec_checks E) of None \<Rightarrow> Valid E | Some reason \<Rightarrow> Invalid reason)
   \<and> (6 \<le> length (trimmedLines E)
        \<and> includes_str (trimmedLines E ! 0) (js ''@'')
        \<and> \<not> list_ex (\<lambda>line. startsWith line (js ''Ability:'')) (trimmedLines E)
        \<and> \<not> list_ex (\<lambda>line. includes_str line (js ''Nature'')) (trimmedLines E)
      \<longrightarrow> validatePokemon E = Invalid (js ''Missing ability''))"
proof
  show "validatePokemon E =
     (case first_failure (spec_checks E) of None \<Rightarrow> Valid E | Some reason \<Rightarrow> Invalid reason)"
    unfolding validatePokemon_def spec_checks_def first_failure_def Let_def
    by (auto simp: list_ex_iff find_None_iff dest: find_startsWith_Some split: option.splits)
  show "6 \<le> length (trimmedLines E)
        \<and> includes_str (trimmedLines E ! 0) (js ''@'')
        \<and> \<not> list_ex (\<lambda>line. startsWith line (js ''Ability:'')) (trimmedLines E)
        \<and> \<not> list_ex (\<lambda>line. includes_str line (js ''Nature'')) (trimmedLines E)
      \<longrightarrow> validatePokemon E = Invalid (js ''Missing ability'')"
    unfolding validatePokemon_def Let_def by simp
qed

theorem validatePokemon_first_failure_witness:
  "validatePokemon noAbilityPokemon = Invalid (js ''Missing ability'')
   \<and> \<not> list_ex (\<lambda>line. includes_str line (js ''Nature'')) (trimmedLines noAbilityPokemon)"
proof -
  have h: "6 \<le> length (trimmedLines noAbilityPokemon)
        \<and> includes_str (trimmedLines noAbilityPokemon ! 0) (js ''@'')
        \<and> \<not> list_ex (\<lambda>line. startsWith line (js ''Ability:'')) (trimmedLines noAbilityPokemon)
        \<and> \<not> list_ex (\<lambda>line. includes_str line (js ''Nature'')) (trimmedLines noAbilityPokemon)"
    by (simp add: noAbilityPokemon_lines js_def startsWith_def)
  from validatePokemon_first_failure [of noAbilityPokemon] h show ?thesis by blast
qed

section \<open>The move count (C8)\<close>

text \<open>
  C8, amended. An entry whose number of lines starting with \<^verbatim>\<open>-\<close> is not 4 is
  never valid. If it gets past the checks that come before the move count (which needs
  at least one such line), the reason is \<^verbatim>\<open>Expected 4 moves, found n\<close> with \<open>n\<close>
  the number found. With no such line the reason is never that one: the entry is
  rejected earlier.
\<close>

theorem validatePokemon_move_count:
  "(moveCount E \<noteq> 4 \<longrightarrow> \<not> valid (validatePokemon E))
   \<and> (passesBeforeMoveCount E \<and> moveCount E \<noteq> 4 \<longrightarrow>
        1 \<le> moveCount E
        \<and> validatePokemon E = Invalid (js ''Expected 4 moves, found '' @ toString (moveCount E)))
   \<and> (moveCount E = 0 \<longrightarrow>
        validatePokemon E \<noteq> Invalid (js ''Expected 4 moves, found '' @ toString (moveCount E)))"
proof (intro conjI impI)
  assume "moveCount E \<noteq> 4"
  then show "\<not> valid (validatePokemon E)"
    unfolding validatePokemon_decide moveCount_def Let_def by simp
next
  assume a: "passesBeforeMoveCount E \<and> moveCount E \<noteq> 4"
  then have "list_ex (\<lambda>line. startsWith line (js ''-'')) (trimmedLines E)"
    by (simp add: passesBeforeMoveCount_def Let_def)
  then show "1 \<le> moveCount E"
    unfolding moveCount_def list_ex_iff
    by (metis One_nat_def Suc_leI filter_empty_conv length_greater_0_conv)
  from a show "validatePokemon E = Invalid (js ''Expected 4 moves, found '' @ toString (moveCount E))"
    unfolding validatePokemon_def passesBeforeMoveCount_def moveCount_def Let_def
    by (auto split: option.splits)
next
  assume z: "moveCount E = 0"
  have ne: "js ''Expected 4 moves, found '' @ toString 0 \<noteq> js ''Pokemon entry too short''"
    "js ''Expected 4 moves, found '' @ toString 0 \<noteq> js ''Missing item (@)''"
    "js ''Expected 4 moves, found '' @ toString 0 \<noteq> js ''Missing ability''"
    "js ''Expected 4 moves, found '' @ toString 0 \<noteq> js ''Missing EVs''"
    "js ''Expected 4 moves, found '' @ toString 0 \<noteq> js ''Missing nature''"
    "js ''Expected 4 moves, found '' @ toString 0 \<noteq> js ''Missing moves''"
    by (simp_all add: js_def)
  from z have "filter (\<lambda>line. startsWith line (js ''-'')) (trimmedLines E) = []"
    by (simp add: moveCount_def)
  then show "validatePokemon E \<noteq> Invalid (js ''Expected 4 moves, found '' @ toString (moveCount E))"
    unfolding validatePokemon_decide Let_def z using ne [symmetric]
    by simp
qed

theorem validatePokemon_move_count_witness:
  "moveCount fiveMovesPokemon = 5
   \<and> validatePokemon fiveMovesPokemon = Invalid (js ''Expected 4 moves, found 5'')
   \<and> \<not> valid (validatePokemon fiveMovesPokemon)
   \<and> moveCount noMovesPokemon = 0
   \<and> validatePokemon noMovesPokemon \<noteq> Invalid (js ''Expected 4 moves, found 0'')"
proof -
  have ev: "find (\<lambda>l. startsWith l (js ''EVs:'')) (trimmedLines fiveMovesPokemon)
      = Some (js ''EVs: 248 Atk / 6 SpD / 252 Spe'')"
    by (simp add: fiveMovesPokemon_lines js_def startsWith_def)
  have h5: "passesBeforeMoveCount fiveMovesPokemon"
    unfolding passesBeforeMoveCount_def Let_def ev option.case
    using sample_evSpread_ok by (simp add: fiveMovesPokemon_lines js_def startsWith_def)
  have c5: "moveCount fiveMovesPokemon = 5"
    by (simp add: moveCount_def fiveMovesPokemon_lines js_def startsWith_def)
  have c0: "moveCount noMovesPokemon = 0"
    by (simp add: moveCount_def noMovesPokemon_lines js_def startsWith_def)
  have t5: "toString 5 = js ''5''" and t0: "toString 0 = js ''0''"
    by (simp_all add: toString.simps js_def)
  have j: "js ''Expected 4 moves, found '' @ js ''5'' = js ''Expected 4 moves, found 5''"
    "js ''Expected 4 moves, found '' @ js ''0'' = js ''Expected 4 moves, found 0''"
    by (simp_all add: js_def)
  from validatePokemon_move_count [of fiveMovesPokemon] h5 c5
  have "validatePokemon fiveMovesPokemon = Invalid (js ''Expected 4 moves, found 5'')"
    and "\<not> valid (validatePokemon fiveMovesPokemon)"
    by (simp_all add: t5 j)
  moreover from validatePokemon_move_count [of noMovesPokemon] c0
  have "validatePokemon noMovesPokemon \<noteq> Invalid (js ''Expected 4 moves, found 0'')"
    by (simp add: t0 j)
  ultimately show ?thesis using c5 c0 by simp
qed

text \<open>
  C8 as stated promises a reason naming the count for a count of 0 as well. This
  entry has six lines, none of them a move line, and passes the checks before the
  moves-present check; its reason does not name a count.
\<close>

theorem validatePokemon_zero_moves_counterexample:
  "moveCount noMovesPokemon = 0
   \<and> validatePokemon noMovesPokemon = Invalid (js ''Missing moves'')
   \<and> validatePokemon noMovesPokemon \<noteq> Invalid (js ''Expected 4 moves, found 0'')"
  by (simp add: moveCount_def validatePokemon_def noMovesPokemon_lines js_def startsWith_def)

section \<open>The reason of each presence check (C9)\<close>

text \<open>
  C9, amended. \<^verbatim>\<open>validatePokemon\<close> returns \<^verbatim>\<open>Pokemon entry too short\<close> when fewer
  than 6 trimmed non-empty lines remain; otherwise \<^verbatim>\<open>Missing item (@)\<close> when the first
  line lacks \<^verbatim>\<open>@\<close>; otherwise \<^verbatim>\<open>Missing ability\<close> when no line starts with
  \<^verbatim>\<open>Ability:\<close>; otherwise \<^verbatim>\<open>Missing EVs\<close> when no line starts with \<^verbatim>\<open>EVs:\<close>;
  otherwise \<^verbatim>\<open>Missing nature\<close> when no line contains \<^verbatim>\<open>Nature\<close>; otherwise
  \<^verbatim>\<open>Missing moves\<close> when no line starts with \<^verbatim>\<open>-\<close>.
\<close>

theorem validatePokemon_reasons:
  "(let lines = trimmedLines E;
        longEnough = (6 \<le> length lines);
        hasItem = includes_str (lines ! 0) (js ''@'');
        hasAbility = list_ex (\<lambda>line. startsWith line (js ''Ability:'')) lines;
        hasEVs = list_ex (\<lambda>line. startsWith line (js ''EVs:'')) lines;
        hasNature = list_ex (\<lambda>line. includes_str line (js ''Nature'')) lines;
        hasMoves = list_ex (\<lambda>line. startsWith line (js ''-'')) lines
    in
      (\<not> longEnough \<longrightarrow> validatePokemon E = Invalid (js ''Pokemon entry too short''))
    \<and> (longEnough \<and> \<not> hasItem \<longrightarrow> validatePokemon E = Invalid (js ''Missing item (@)''))
    \<and> (longEnough \<and> hasItem \<and> \<not> hasAbility \<longrightarrow>
          validatePokemon E = Invalid (js ''Missing ability''))
    \<and> (longEnough \<and> hasItem \<and> hasAbility \<and> \<not> hasEVs \<longrightarrow>
          validatePokemon E = Invalid (js ''Missing EVs''))
    \<and> (longEnough \<and> hasItem \<and> hasAbility \<and> hasEVs \<and> \<not> hasNature \<longrightarrow>
          validatePokemon E = Invalid (js ''Missing nature''))
    \<and> (longEnough \<and> hasItem \<and> hasAbility \<and> hasEVs \<and> hasNature \<and> \<not> hasMoves \<longrightarrow>
          validatePokemon E = Invalid (js ''Missing moves'')))"
  unfolding validatePokemon_def Let_def by simp

theorem validatePokemon_reasons_witness:
  "validatePokemon invalidPokemon = Invalid (js ''Pokemon entry too short'')
   \<and> validatePokemon noItemPokemon = Invalid (js ''Missing item (@)'')
   \<and> validatePokemon noAbilityPokemon = Invalid (js ''Missing ability'')
   \<and> validatePokemon noEVsPokemon = Invalid (js ''Missing EVs'')
   \<and> validatePokemon noNaturePokemon = Invalid (js ''Missing nature'')
   \<and> validatePokemon noMovesPokemon = Invalid (js ''Missing moves'')"
proof -
  let ?ab = "list_ex (\<lambda>line. startsWith line (js ''Ability:''))"
  let ?ev = "list_ex (\<lambda>line. startsWith line (js ''EVs:''))"
  let ?na = "list_ex (\<lambda>line. includes_str line (js ''Nature''))"
  let ?mv = "list_ex (\<lambda>line. startsWith line (js ''-''))"
  have 1: "\<not> 6 \<le> length (trimmedLines invalidPokemon)"
    by (simp add: invalidPokemon_lines)
  have 2: "6 \<le> length (trimmedLines noItemPokemon)
      \<and> \<not> includes_str (trimmedLines noItemPokemon ! 0) (js ''@'')"
    by (simp add: noItemPokemon_lines js_def)
  have 3: "6 \<le> length (trimmedLines noAbilityPokemon)
      \<and> includes_str (trimmedLines noAbilityPokemon ! 0) (js ''@'')
      \<and> \<not> ?ab (trimmedLines noAbilityPokemon)"
    by (simp add: noAbilityPokemon_lines js_def startsWith_def)
  have 4: "6 \<le> length (trimmedLines noEVsPokemon)
      \<and> includes_str (trimmedLines noEVsPokemon ! 0) (js ''@'')
      \<and> ?ab (trimmedLines noEVsPokemon) \<and> \<not> ?ev (trimmedLines noEVsPokemon)"
    by (simp add: noEVsPokemon_lines js_def startsWith_def)
  have 5: "6 \<le> length (trimmedLines noNaturePokemon)
      \<and> includes_str (trimmedLines noNaturePokemon ! 0) (js ''@'')
      \<and> ?ab (trimmedLines noNaturePokemon) \<and> ?ev (trimmedLines noNaturePokemon)
      \<and> \<not> ?na (trimmedLines noNaturePokemon)"
    by (simp add: noNaturePokemon_lines js_def startsWith_def)
  have 6: "6 \<le> length (trimmedLines noMovesPokemon)
      \<and> includes_str (trimmedLines noMovesPokemon ! 0) (js ''@'')
      \<and> ?ab (trimmedLines noMovesPokemon) \<and> ?ev (trimmedLines noMovesPokemon)
      \<and> ?na (trimmedLines noMovesPokemon) \<and> \<not> ?mv (trimmedLines noMovesPokemon)"
    by (simp add: noMovesPokemon_lines js_def startsWith_def)
  have r1: "validatePokemon invalidPokemon = Invalid (js ''Pokemon entry too short'')"
    using validatePokemon_reasons [of invalidPokemon] 1 by (simp add: Let_def)
  have r2: "validatePokemon noItemPokemon = Invalid (js ''Missing item (@)'')"
    using validatePokemon_reasons [of noItemPokemon] 2 by (simp add: Let_def)
  have r3: "validatePokemon noAbilityPokemon = Invalid (js ''Missing ability'')"
    using validatePokemon_reasons [of noAbilityPokemon] 3 by (simp add: Let_def)
  have r4: "validatePokemon noEVsPokemon = Invalid (js ''Missing EVs'')"
    using validatePokemon_reasons [of noEVsPokemon] 4 by (simp add: Let_def)
  have r5: "validatePokemon noNaturePokemon = Invalid (js ''Missing nature'')"
    using validatePokemon_reasons [of noNaturePokemon] 5 by (simp add: Let_def)
  have r6: "validatePokemon noMovesPokemon = Invalid (js ''Missing moves'')"
    using validatePokemon_reasons [of noMovesPokemon] 6 by (simp add: Let_def)
  show ?thesis
    using r1 r2 r3 r4 r5 r6 by (intro conjI)
qed

text \<open>
  C9 as stated names the reasons \<^verbatim>\<open>entry too short\<close>, \<^verbatim>\<open>missing EV line\<close> and so
  on, and attaches each to its condition alone. The incomplete entry of test-utils.js
  has three lines and no EV line; its reason is neither of those two strings.
\<close>

theorem validatePokemon_reasons_counterexample:
  "length (trimmedLines invalidPokemon) < 6
   \<and> validatePokemon invalidPokemon \<noteq> Invalid (js ''entry too short'')
   \<and> \<not> list_ex (\<lambda>line. startsWith line (js ''EVs:'')) (trimmedLines invalidPokemon)
   \<and> validatePokemon invalidPokemon \<noteq> Invalid (js ''missing EV line'')
   \<and> validatePokemon invalidPokemon = Invalid (js ''Pokemon entry too short'')"
  by (simp add: validatePokemon_def invalidPokemon_lines js_def startsWith_def)

section \<open>A line of white space is not a separator (C10)\<close>

text \<open>
  C10. \<^verbatim>\<open>validateTeam\<close> separates candidates at two adjacent line feeds only. When
  two adjacent entries of a team are divided by a line that is not empty and holds
  white space only, they form a single candidate; a team of six entries so divided has
  five candidates and is rejected with \<^verbatim>\<open>Expected 6 Pokemon, found 5\<close>.
\<close>

theorem validateTeam_whitespace_line_joins:
  assumes "list_all entryBlock (pre @ [a, b] @ post)"
    and "w \<noteq> []" and "list_all (\<lambda>c. isWhiteSpace c \<and> c \<noteq> 0x0A) w"
  shows "pokemonEntries (join (js ''\<newline>\<newline>'') (pre @ [a, b] @ post)) = pre @ [a, b] @ post
    \<and> pokemonEntries
         (join (js ''\<newline>\<newline>'') (pre @ [a @ js ''\<newline>'' @ w @ js ''\<newline>'' @ b] @ post))
       = pre @ [a @ js ''\<newline>'' @ w @ js ''\<newline>'' @ b] @ post
    \<and> (length pre + length post = 4 \<longrightarrow>
         validateTeam
           (join (js ''\<newline>\<newline>'') (pre @ [a @ js ''\<newline>'' @ w @ js ''\<newline>'' @ b] @ post))
         = TeamInvalid (js ''Expected 6 Pokemon, found 5'') None)"
proof -
  let ?m = "a @ js ''\<newline>'' @ w @ js ''\<newline>'' @ b"
  have m: "entryBlock ?m"
    using assms by (intro entryBlock_merge) simp_all
  have 1: "pokemonEntries (join (js ''\<newline>\<newline>'') (pre @ [a, b] @ post)) = pre @ [a, b] @ post"
    using assms(1) by (intro pokemonEntries_join) simp_all
  have 2: "pokemonEntries (join (js ''\<newline>\<newline>'') (pre @ [?m] @ post)) = pre @ [?m] @ post"
    using assms(1) m by (intro pokemonEntries_join) simp_all
  have t5: "toString 5 = js ''5''"
    by (simp add: toString.simps js_def)
  have 3: "length pre + length post = 4 \<longrightarrow>
      validateTeam (join (js ''\<newline>\<newline>'') (pre @ [?m] @ post))
        = TeamInvalid (js ''Expected 6 Pokemon, found 5'') None"
    unfolding validateTeam_def Let_def 2 by (simp add: t5) (simp add: js_def)
  from 1 2 3 show ?thesis by blast
qed

theorem validateTeam_whitespace_line_joins_witness:
  "team_valid (validateTeam validTeam)
   \<and> pokemonEntries spaceLineTeam =
       [validPokemon @ js ''\<newline> \<newline>'' @ galvantula,
        validPokemon, galvantula, validPokemon, galvantula]
   \<and> validateTeam spaceLineTeam = TeamInvalid (js ''Expected 6 Pokemon, found 5'') None"
proof -
  have blocks: "list_all entryBlock
      ([] @ [validPokemon, galvantula] @ [validPokemon, galvantula, validPokemon, galvantula])"
    by (simp add: sample_blocks)
  have w: "js '' '' \<noteq> []" "list_all (\<lambda>c. isWhiteSpace c \<and> c \<noteq> 0x0A) (js '' '')"
    by (simp_all add: js_def isWhiteSpace_def)
  have m: "validPokemon @ js ''\<newline>'' @ js '' '' @ js ''\<newline>'' @ galvantula
      = validPokemon @ js ''\<newline> \<newline>'' @ galvantula"
    by (simp add: js_def)
  from validateTeam_whitespace_line_joins [OF blocks w]
  show ?thesis
    using validTeam_valid by (simp add: m spaceLineTeam_def)
qed

end
